theory Spec2Isabelle
  imports Main
begin

section \<open>Python values used by the handlers\<close>

text \<open>
  The handlers of \<^verbatim>\<open>service/routes.py\<close> format integers into messages and URLs
  (\<^verbatim>\<open>f"...{product_id}..."\<close>, the \<^verbatim>\<open>int\<close> URL converter). \<open>str_int\<close> is Python's
  \<^verbatim>\<open>str\<close> on an \<^verbatim>\<open>int\<close>: decimal digits, most significant first, a leading minus
  sign for a negative number.
\<close>

definition digit_char :: "nat \<Rightarrow> char" where
  "digit_char d = ''0123456789'' ! d"

fun str_nat :: "nat \<Rightarrow> string" where
  "str_nat n = (if n < 10 then [digit_char n] else str_nat (n div 10) @ [digit_char (n mod 10)])"

declare str_nat.simps [simp del]

definition str_int :: "int \<Rightarrow> string" where
  "str_int i = (if i < 0 then CHR ''-'' # str_nat (nat (- i)) else str_nat (nat i))"

text \<open>
  Reading a decimal numeral back: \<open>digit_of_char\<close> is the value of one ASCII digit,
  \<open>parse_nat\<close> accepts a non-empty string of digits (the regular expression \<^verbatim>\<open>\d+\<close> of
  the \<^verbatim>\<open>int\<close> URL converter, and the integer and fraction parts of a price).
\<close>

definition digit_of_char :: "char \<Rightarrow> nat option" where
  "digit_of_char c =
     (let k = (of_char c :: nat) in if 48 \<le> k \<and> k \<le> 57 then Some (k - 48) else None)"

fun parse_digits :: "nat \<Rightarrow> string \<Rightarrow> nat option" where
  "parse_digits acc [] = Some acc"
| "parse_digits acc (c # cs) =
     (case digit_of_char c of None \<Rightarrow> None | Some d \<Rightarrow> parse_digits (10 * acc + d) cs)"

definition parse_nat :: "string \<Rightarrow> nat option" where
  "parse_nat s = (if s = [] then None else parse_digits 0 s)"

text \<open>
  A price is a decimal number: \<open>Decimal u s\<close> stands for \<open>u / 10 ^ s\<close>, so that
  \<open>Decimal 999 2\<close> is 9.99. JSON values are the parsed request bodies and the documents
  handed to \<^verbatim>\<open>jsonify\<close>; an object is the list of its members in order.
\<close>

datatype decimal = Decimal (unscaled: int) (scale: nat)

datatype json =
    JNull
  | JBool bool
  | JInt int
  | JDec decimal
  | JStr string
  | JArr "json list"
  | JObj "(string \<times> json) list"

section \<open>Requests, responses and exceptions\<close>

datatype http_method = GET | POST | PUT | DELETE

text \<open>
  What a handler reads of Flask's \<^verbatim>\<open>request\<close>: the method and the path (split at
  \<^verbatim>\<open>/\<close>) for the router, the header list, the body as \<^verbatim>\<open>request.get_json()\<close> sees it
  (\<open>None\<close> when the bytes of the body are not a JSON text), and the scheme and host that
  \<^verbatim>\<open>url_for(..., _external=True)\<close> puts in front of a path.
\<close>

record request =
  req_method :: http_method
  path :: "string list"
  headers :: "(string \<times> string) list"
  json_body :: "json option"
  url_scheme :: string
  host :: string

text \<open>A handler's return value \<^verbatim>\<open>(jsonify(body), status, headers)\<close>.\<close>

record response =
  status_code :: nat
  body :: json
  resp_headers :: "(string \<times> string) list"

text \<open>
  The exceptions that end a request: \<^verbatim>\<open>abort(code, message)\<close> raises an
  \<open>HTTPException\<close> with that status and description; \<open>DataValidationError\<close> is raised by
  \<^verbatim>\<open>Product.deserialize\<close>; \<open>BuildError\<close> is what \<^verbatim>\<open>url_for\<close> raises when a
  value of the rule is missing; \<open>TypeError\<close> is Python's, for a function called with
  the wrong number of arguments.
\<close>

datatype exn =
    HTTPException nat string
  | DataValidationError string
  | BuildError
  | TypeError

text \<open>
  Modelled from the spec: \<^verbatim>\<open>service/common/status.py\<close> is not among the sources. The
  constants carry the status codes that the spec's table of the HTTP surface gives for
  each outcome.
\<close>

definition HTTP_200_OK :: nat where "HTTP_200_OK = 200"
definition HTTP_201_CREATED :: nat where "HTTP_201_CREATED = 201"
definition HTTP_400_BAD_REQUEST :: nat where "HTTP_400_BAD_REQUEST = 400"
definition HTTP_404_NOT_FOUND :: nat where "HTTP_404_NOT_FOUND = 404"
definition HTTP_405_METHOD_NOT_ALLOWED :: nat where "HTTP_405_METHOD_NOT_ALLOWED = 405"
definition HTTP_415_UNSUPPORTED_MEDIA_TYPE :: nat where "HTTP_415_UNSUPPORTED_MEDIA_TYPE = 415"

section \<open>Utility functions\<close>

text \<open>
  \<^verbatim>\<open>check_content_type\<close> (routes.py, lines 173 to 189): the header must be present and
  string-equal to the expected type; both failures abort with 415 and the same message.
  \<open>Inr ()\<close> is the normal return (the Python function returns \<^verbatim>\<open>None\<close>).
\<close>

definition check_content_type :: "string \<Rightarrow> request \<Rightarrow> exn + unit" where
  "check_content_type content_type req =
     (case map_of (headers req) ''Content-Type'' of
        None \<Rightarrow>
          Inl (HTTPException HTTP_415_UNSUPPORTED_MEDIA_TYPE
                 (''Content-Type must be '' @ content_type))
      | Some v \<Rightarrow>
          if v = content_type then Inr ()
          else Inl (HTTPException HTTP_415_UNSUPPORTED_MEDIA_TYPE
                      (''Content-Type must be '' @ content_type)))"

section \<open>The Product entity\<close>

text \<open>
  Modelled from the spec: \<^verbatim>\<open>service/models.py\<close> (the class \<^verbatim>\<open>Product\<close>) is not among
  the sources; routes.py only calls it. The record and the operations below follow the
  spec's data model (section 3), the persistence interface of its section 6
  (\<^verbatim>\<open>find(id) -> Product|absent\<close>, \<^verbatim>\<open>create() -> assigns id\<close>,
  \<^verbatim>\<open>update() -> rewrites by id\<close>) and the serialized shape given there. \<open>prod_id\<close> is the
  attribute \<^verbatim>\<open>id\<close>: absent on a transient product, assigned by \<open>create\<close>.
\<close>

record product =
  prod_id :: "int option"
  name :: string
  sku :: string
  description :: string
  price :: decimal
  image_url :: "string option"

text \<open>
  Modelled from the spec: \<^verbatim>\<open>Product()\<close>, a transient product with no id. What its other
  attributes hold is never read: \<open>deserialize\<close> assigns every one of them or raises.
\<close>

definition Product :: product where
  "Product = \<lparr>prod_id = None, name = [], sku = [], description = [],
              price = Decimal 0 0, image_url = None\<rparr>"

text \<open>
  Modelled from the spec: the wire form of a price is the number as a string, in plain
  positional notation as in the spec's example \<^verbatim>\<open>"price":"9.99"\<close>: an optional minus
  sign, the integer part, and after a point as many fraction digits as the scale.
\<close>

definition str_decimal :: "decimal \<Rightarrow> string" where
  "str_decimal d =
     (let a = nat \<bar>unscaled d\<bar>;
          s = scale d;
          f = str_nat (a mod 10 ^ s)
      in (if unscaled d < 0 then ''-'' else [])
         @ str_nat (a div 10 ^ s)
         @ (if s = 0 then [] else CHR ''.'' # replicate (s - length f) CHR ''0'' @ f))"

definition parse_decimal :: "string \<Rightarrow> decimal option" where
  "parse_decimal str =
     (let neg = (str \<noteq> [] \<and> hd str = CHR ''-'');
          rest = (if neg then tl str else str);
          ip = takeWhile (\<lambda>c. c \<noteq> CHR ''.'') rest;
          fp = dropWhile (\<lambda>c. c \<noteq> CHR ''.'') rest;
          signed = (\<lambda>n. if neg then - int n else int n)
      in (case parse_nat ip of
            None \<Rightarrow> None
          | Some a \<Rightarrow>
              (if fp = [] then Some (Decimal (signed a) 0)
               else (case parse_nat (tl fp) of
                       None \<Rightarrow> None
                     | Some b \<Rightarrow>
                         Some (Decimal (signed (a * 10 ^ length (tl fp) + b))
                                 (length (tl fp)))))))"

text \<open>
  Modelled from the spec: \<^verbatim>\<open>Product.serialize\<close>, a mapping of the shape
  \<^verbatim>\<open>{id, name, sku, description, price, image_url}\<close>, the price as a string.
\<close>

definition serialize :: "product \<Rightarrow> json" where
  "serialize self =
     JObj [(''id'', case prod_id self of None \<Rightarrow> JNull | Some i \<Rightarrow> JInt i),
           (''name'', JStr (name self)),
           (''sku'', JStr (sku self)),
           (''description'', JStr (description self)),
           (''price'', JStr (str_decimal (price self))),
           (''image_url'', case image_url self of None \<Rightarrow> JNull | Some u \<Rightarrow> JStr u)]"

text \<open>
  Modelled from the spec: \<^verbatim>\<open>Product.deserialize\<close> populates the fields from a mapping or
  fails with a validation error (a missing field or a value of the wrong type); it never
  sets the id. Every field is required (section 8: omitted fields are treated as
  required); \<^verbatim>\<open>image_url\<close>, optional in the data model, may be null. A price is
  accepted as a string or as a number.
\<close>

definition str_field :: "(string \<times> json) list \<Rightarrow> string \<Rightarrow> string option" where
  "str_field kv k = (case map_of kv k of Some (JStr s) \<Rightarrow> Some s | _ \<Rightarrow> None)"

definition decimal_of_json :: "json \<Rightarrow> decimal option" where
  "decimal_of_json j =
     (case j of
        JStr s \<Rightarrow> parse_decimal s
      | JDec d \<Rightarrow> Some d
      | JInt i \<Rightarrow> Some (Decimal i 0)
      | _ \<Rightarrow> None)"

definition price_field :: "(string \<times> json) list \<Rightarrow> decimal option" where
  "price_field kv = (case map_of kv ''price'' of None \<Rightarrow> None | Some j \<Rightarrow> decimal_of_json j)"

definition url_field :: "(string \<times> json) list \<Rightarrow> string option option" where
  "url_field kv =
     (case map_of kv ''image_url'' of
        Some (JStr u) \<Rightarrow> Some (Some u)
      | Some JNull \<Rightarrow> Some None
      | _ \<Rightarrow> None)"

definition deserialize :: "product \<Rightarrow> json \<Rightarrow> exn + product" where
  "deserialize self data =
     (case data of
        JObj kv \<Rightarrow>
          (case str_field kv ''name'' of
             None \<Rightarrow> Inl (DataValidationError ''Invalid product: name'')
           | Some n \<Rightarrow>
          (case str_field kv ''sku'' of
             None \<Rightarrow> Inl (DataValidationError ''Invalid product: sku'')
           | Some k \<Rightarrow>
          (case str_field kv ''description'' of
             None \<Rightarrow> Inl (DataValidationError ''Invalid product: description'')
           | Some d \<Rightarrow>
          (case price_field kv of
             None \<Rightarrow> Inl (DataValidationError ''Invalid product: price'')
           | Some p \<Rightarrow>
          (case url_field kv of
             None \<Rightarrow> Inl (DataValidationError ''Invalid product: image_url'')
           | Some u \<Rightarrow>
               Inr (self\<lparr>name := n, sku := k, description := d, price := p,
                         image_url := u\<rparr>))))))
      | _ \<Rightarrow> Inl (DataValidationError ''Invalid product: body of request contained bad or no data''))"

text \<open>
  Modelled from the spec: the durable records are the rows of one table, each with its
  id, and the next id of the auto-increment. \<open>Product_find\<close> is \<^verbatim>\<open>Product.find(id)\<close>,
  \<open>create\<close> assigns the id and writes the row, \<open>update\<close> rewrites the row of the
  product's id.
\<close>

record store =
  rows :: "product list"
  next_id :: int

definition Product_find :: "store \<Rightarrow> int \<Rightarrow> product option" where
  "Product_find db i = find (\<lambda>p. prod_id p = Some i) (rows db)"

definition create :: "product \<Rightarrow> store \<Rightarrow> product \<times> store" where
  "create self db =
     (let self' = self\<lparr>prod_id := Some (next_id db)\<rparr>
      in (self', db\<lparr>rows := rows db @ [self'], next_id := next_id db + 1\<rparr>))"

definition update :: "product \<Rightarrow> store \<Rightarrow> store" where
  "update self db =
     db\<lparr>rows := map (\<lambda>q. if prod_id q = prod_id self then self else q) (rows db)\<rparr>"

section \<open>What the handlers use of Flask\<close>

text \<open>
  \<^verbatim>\<open>request.get_json()\<close>: the parsed body, or a 400 (Bad Request) when the body is not
  a JSON text. Both handlers call it only after the guard has accepted the
  Content-Type, so Flask's own test of the media type passes.
\<close>

definition get_json :: "request \<Rightarrow> exn + json" where
  "get_json req =
     (case json_body req of
        None \<Rightarrow> Inl (HTTPException HTTP_400_BAD_REQUEST ''Failed to decode JSON object'')
      | Some data \<Rightarrow> Inr data)"

text \<open>
  \<^verbatim>\<open>url_for("get_products", product_id=..., _external=...)\<close>: the path of the rule
  \<^verbatim>\<open>/products/<int:product_id>\<close> with the id in decimal; an external URL has the
  request's scheme and host in front. Without a value for the id the URL cannot be built.
\<close>

definition url_for_get_products :: "request \<Rightarrow> int option \<Rightarrow> bool \<Rightarrow> exn + string" where
  "url_for_get_products req product_id external =
     (case product_id of
        None \<Rightarrow> Inl BuildError
      | Some i \<Rightarrow>
          Inr ((if external then url_scheme req @ ''://'' @ host req else [])
               @ ''/products/'' @ str_int i))"

text \<open>
  The status a client sees. An aborted request carries the status of the abort; a handler's
  response carries its own. Modelled from the spec: \<^verbatim>\<open>service/common/error_handlers.py\<close>
  is not among the sources; a validation error is answered with 400 (section 7). An
  exception nothing handles is Flask's 500.
\<close>

definition http_status :: "exn + response \<Rightarrow> nat" where
  "http_status r =
     (case r of
        Inr resp \<Rightarrow> status_code resp
      | Inl (HTTPException code msg) \<Rightarrow> code
      | Inl (DataValidationError msg) \<Rightarrow> HTTP_400_BAD_REQUEST
      | Inl BuildError \<Rightarrow> 500
      | Inl TypeError \<Rightarrow> 500)"

section \<open>The handlers of routes.py\<close>

text \<open>
  A handler reads the request and the store and either returns a response or ends with
  an exception; it returns the store as it leaves it. The calls of \<^verbatim>\<open>app.logger\<close> write
  to the log only and are left out.
\<close>

type_synonym handler = "request \<Rightarrow> store \<Rightarrow> (exn + response) \<times> store"

text \<open>\<^verbatim>\<open>index\<close> (routes.py, lines 33 to 69): the document \<^verbatim>\<open>api_details\<close>, status 200.\<close>

definition api_details :: json where
  "api_details =
     JObj [(''name'', JStr ''Products REST API Service''),
           (''version'', JStr ''0.1.0''),
           (''description'',
              JStr ''This is the products service API. Below is how you use it.''),
           (''endpoints'',
              JArr [JObj [(''method'', JStr ''POST''),
                          (''path'', JStr ''/products''),
                          (''description'',
                             JStr ''Creates a new product with the data in the body that is posted'')],
                    JObj [(''method'', JStr ''GET''),
                          (''path'', JStr ''/products/<product_id>''),
                          (''description'', JStr ''Returns a product based on its id'')],
                    JObj [(''method'', JStr ''GET''),
                          (''path'', JStr ''/products''),
                          (''description'', JStr ''Returns a list of all products'')],
                    JObj [(''method'', JStr ''PUT''),
                          (''path'', JStr ''/products/<product_id>''),
                          (''description'',
                             JStr ''Updates a product based on its id with the data in the body that is posted'')],
                    JObj [(''method'', JStr ''DELETE''),
                          (''path'', JStr ''/products/<product_id>''),
                          (''description'', JStr ''Deletes a product based on its id'')]]),
           (''status'', JStr ''online'')]"

definition index :: handler where
  "index req db =
     (Inr \<lparr>status_code = HTTP_200_OK, body = api_details, resp_headers = []\<rparr>, db)"

text \<open>\<^verbatim>\<open>create_products\<close> (routes.py, lines 80 to 107).\<close>

definition create_products :: handler where
  "create_products req db =
     (case check_content_type ''application/json'' req of
        Inl e \<Rightarrow> (Inl e, db)
      | Inr u \<Rightarrow>
     (case get_json req of
        Inl e \<Rightarrow> (Inl e, db)
      | Inr data \<Rightarrow>
     (case deserialize Product data of
        Inl e \<Rightarrow> (Inl e, db)
      | Inr product \<Rightarrow>
     (case create product db of
        (product', db') \<Rightarrow>
     (case url_for_get_products req (prod_id product') True of
        Inl e \<Rightarrow> (Inl e, db')
      | Inr location_url \<Rightarrow>
          (Inr \<lparr>status_code = HTTP_201_CREATED,
                body = serialize product',
                resp_headers = [(''Location'', location_url)]\<rparr>,
           db'))))))"

text \<open>\<^verbatim>\<open>get_products\<close> (routes.py, lines 113 to 130).\<close>

definition get_products :: "int \<Rightarrow> handler" where
  "get_products product_id req db =
     (case Product_find db product_id of
        None \<Rightarrow>
          (Inl (HTTPException HTTP_404_NOT_FOUND
                  (''Product with id '' @ [CHR 0x27] @ str_int product_id @ [CHR 0x27]
                   @ '' was not found.'')),
           db)
      | Some product \<Rightarrow>
          (Inr \<lparr>status_code = HTTP_200_OK, body = serialize product, resp_headers = []\<rparr>,
           db))"

text \<open>
  \<^verbatim>\<open>update_products\<close> (routes.py, lines 136 to 159): the lookup comes first, the guard
  second.
\<close>

definition update_products :: "int \<Rightarrow> handler" where
  "update_products product_id req db =
     (case Product_find db product_id of
        None \<Rightarrow>
          (Inl (HTTPException HTTP_404_NOT_FOUND
                  (''Product with id '' @ [CHR 0x27] @ str_int product_id @ [CHR 0x27]
                   @ '' was not found.'')),
           db)
      | Some product \<Rightarrow>
     (case check_content_type ''application/json'' req of
        Inl e \<Rightarrow> (Inl e, db)
      | Inr u \<Rightarrow>
     (case get_json req of
        Inl e \<Rightarrow> (Inl e, db)
      | Inr data \<Rightarrow>
     (case deserialize product data of
        Inl e \<Rightarrow> (Inl e, db)
      | Inr product' \<Rightarrow>
          (Inr \<lparr>status_code = HTTP_200_OK, body = serialize product', resp_headers = []\<rparr>,
           update product' db)))))"

section \<open>The URL map\<close>

text \<open>
  The \<^verbatim>\<open>@app.route\<close> decorators of routes.py, in order: a rule (its segments after each
  \<^verbatim>\<open>/\<close>, an \<^verbatim>\<open><int:name>\<close> segment being an argument), the methods, the view function.
  The rule of the index comes first, then the rules of the file's part
  \<^verbatim>\<open>REST API ENDPOINTS\<close>.
\<close>

datatype segment = Static string | IntArg string

datatype view = View0 handler | View1 "int \<Rightarrow> handler"

definition rest_api_rules :: "(segment list \<times> http_method list \<times> view) list" where
  "rest_api_rules =
     [([Static ''products''], [POST], View0 create_products),
      ([Static ''products'', IntArg ''product_id''], [GET], View1 get_products),
      ([Static ''products'', IntArg ''product_id''], [PUT], View1 update_products)]"

definition url_map :: "(segment list \<times> http_method list \<times> view) list" where
  "url_map = ([], [GET], View0 index) # rest_api_rules"

text \<open>
  Matching a path against a rule gives the arguments of the view: a static segment
  must be equal, an \<^verbatim>\<open>int\<close> segment must be a string of digits.
\<close>

fun match_rule :: "segment list \<Rightarrow> string list \<Rightarrow> int list option" where
  "match_rule [] [] = Some []"
| "match_rule (Static s # rule) (x # p) = (if s = x then match_rule rule p else None)"
| "match_rule (IntArg a # rule) (x # p) =
     (case parse_nat x of
        None \<Rightarrow> None
      | Some n \<Rightarrow> (case match_rule rule p of None \<Rightarrow> None | Some args \<Rightarrow> Some (int n # args)))"
| "match_rule rule p = None"

text \<open>
  The router: the first rule that matches the path and allows the method; when rules
  match the path and none allows the method, 405 (Method Not Allowed); when no rule
  matches the path, 404.
\<close>

fun match_request ::
  "(segment list \<times> http_method list \<times> view) list \<Rightarrow> http_method \<Rightarrow> string list \<Rightarrow> bool
     \<Rightarrow> exn + (view \<times> int list)" where
  "match_request [] m p have_match =
     (if have_match
      then Inl (HTTPException HTTP_405_METHOD_NOT_ALLOWED ''Method Not Allowed'')
      else Inl (HTTPException HTTP_404_NOT_FOUND ''Not Found''))"
| "match_request ((rule, methods, v) # rs) m p have_match =
     (case match_rule rule p of
        None \<Rightarrow> match_request rs m p have_match
      | Some args \<Rightarrow>
          if m \<in> set methods then Inr (v, args) else match_request rs m p True)"

text \<open>
  Dispatching a request: the view is called with the arguments of the match. A view
  called with the wrong number of arguments would be a \<open>TypeError\<close> (no rule of
  \<open>url_map\<close> does that).
\<close>

definition dispatch :: handler where
  "dispatch req db =
     (case match_request url_map (req_method req) (path req) False of
        Inl e \<Rightarrow> (Inl e, db)
      | Inr (View0 f, []) \<Rightarrow> f req db
      | Inr (View1 f, [i]) \<Rightarrow> f i req db
      | Inr other \<Rightarrow> (Inl TypeError, db))"

text \<open>
  Reading the index document: the member of an object, and the (method, path) pairs of
  its list of endpoints. \<open>routed_operations\<close> lists the same pairs for the rules of
  the REST API, a rule written as the index document writes a path
  (\<^verbatim>\<open>/products/<product_id>\<close>).
\<close>

definition member_of :: "json \<Rightarrow> string \<Rightarrow> json option" where
  "member_of j k = (case j of JObj kv \<Rightarrow> map_of kv k | _ \<Rightarrow> None)"

definition keys_of :: "json \<Rightarrow> string list" where
  "keys_of j = (case j of JObj kv \<Rightarrow> map fst kv | _ \<Rightarrow> [])"

definition documented_operations :: "json \<Rightarrow> (string \<times> string) list" where
  "documented_operations doc =
     (case member_of doc ''endpoints'' of
        Some (JArr es) \<Rightarrow>
          List.map_filter
            (\<lambda>e. case (member_of e ''method'', member_of e ''path'') of
                   (Some (JStr m), Some (JStr p)) \<Rightarrow> Some (m, p)
                 | _ \<Rightarrow> None) es
      | _ \<Rightarrow> [])"

fun method_name :: "http_method \<Rightarrow> string" where
  "method_name GET = ''GET''"
| "method_name POST = ''POST''"
| "method_name PUT = ''PUT''"
| "method_name DELETE = ''DELETE''"

fun segment_doc :: "segment \<Rightarrow> string" where
  "segment_doc (Static s) = s"
| "segment_doc (IntArg a) = ''<'' @ a @ ''>''"

definition rule_doc :: "segment list \<Rightarrow> string" where
  "rule_doc rule = (if rule = [] then ''/'' else concat (map (\<lambda>s. ''/'' @ segment_doc s) rule))"

definition routed_operations :: "(string \<times> string) list" where
  "routed_operations =
     concat (map (\<lambda>(rule, methods, v). map (\<lambda>m. (method_name m, rule_doc rule)) methods)
               rest_api_rules)"

section \<open>The example scenario of the spec\<close>

text \<open>
  The request of the spec's example (a POST of a widget with the header
  \<^verbatim>\<open>Content-Type: application/json\<close>), a store with no row, and the store and the
  product that the request leaves behind; the concrete inputs of the checks below.
\<close>

definition widget_payload :: json where
  "widget_payload =
     JObj [(''name'', JStr ''Widget''),
           (''sku'', JStr ''AB123CD''),
           (''description'', JStr ''basic widget''),
           (''price'', JStr ''9.99''),
           (''image_url'', JStr ''http://x/img.png'')]"

definition post_widget :: request where
  "post_widget =
     \<lparr>req_method = POST, path = [''products''],
      headers = [(''Content-Type'', ''application/json'')],
      json_body = Some widget_payload, url_scheme = ''http'', host = ''localhost''\<rparr>"

definition empty_store :: store where
  "empty_store = \<lparr>rows = [], next_id = 1\<rparr>"

definition widget :: product where
  "widget =
     \<lparr>prod_id = Some 1, name = ''Widget'', sku = ''AB123CD'', description = ''basic widget'',
      price = Decimal 999 2, image_url = Some ''http://x/img.png''\<rparr>"

definition widget_store :: store where
  "widget_store = \<lparr>rows = [widget], next_id = 2\<rparr>"

text \<open>
  A body for an update of the widget: every field changed, the image removed, and an
  \<^verbatim>\<open>id\<close> that is not the widget's; and the product the update leaves.
\<close>

definition gadget_payload :: json where
  "gadget_payload =
     JObj [(''id'', JInt 42),
           (''name'', JStr ''Gadget''),
           (''sku'', JStr ''ZZ000ZZ''),
           (''description'', JStr ''better widget''),
           (''price'', JStr ''12.50''),
           (''image_url'', JNull)]"

definition gadget :: product where
  "gadget =
     \<lparr>prod_id = Some 1, name = ''Gadget'', sku = ''ZZ000ZZ'', description = ''better widget'',
      price = Decimal 1250 2, image_url = None\<rparr>"

definition put_gadget :: request where
  "put_gadget =
     \<lparr>req_method = PUT, path = [''products'', ''1''],
      headers = [(''Content-Type'', ''application/json'')],
      json_body = Some gadget_payload, url_scheme = ''http'', host = ''localhost''\<rparr>"

text \<open>A request to delete the widget.\<close>

definition delete_widget :: request where
  "delete_widget =
     \<lparr>req_method = DELETE, path = [''products'', ''1''], headers = [],
      json_body = None, url_scheme = ''http'', host = ''localhost''\<rparr>"

section \<open>Auxiliary facts\<close>

lemmas status_defs =
  HTTP_200_OK_def HTTP_201_CREATED_def HTTP_400_BAD_REQUEST_def HTTP_404_NOT_FOUND_def
  HTTP_405_METHOD_NOT_ALLOWED_def HTTP_415_UNSUPPORTED_MEDIA_TYPE_def

subsection \<open>Decimal numerals\<close>

lemma digit_of_digit_char: "d < 10 \<Longrightarrow> digit_of_char (digit_char d) = Some d"
proof -
  assume "d < 10"
  then have "d = 0 \<or> d = 1 \<or> d = 2 \<or> d = 3 \<or> d = 4 \<or> d = 5 \<or> d = 6 \<or> d = 7
      \<or> d = 8 \<or> d = 9"
    by arith
  then show ?thesis
    by (elim disjE) (simp_all add: digit_of_char_def digit_char_def)
qed

lemma digit_of_char_zero: "digit_of_char CHR ''0'' = Some 0"
  by (simp add: digit_of_char_def)

lemma digit_of_char_not_digit:
  "digit_of_char CHR ''.'' = None" "digit_of_char CHR ''-'' = None"
  by (simp_all add: digit_of_char_def)

lemma parse_digits_append:
  "parse_digits acc (xs @ ys) =
     (case parse_digits acc xs of None \<Rightarrow> None | Some a \<Rightarrow> parse_digits a ys)"
  by (induction xs arbitrary: acc) (auto split: option.splits)

lemma parse_digits_str_nat: "parse_digits 0 (str_nat n) = Some n"
proof (induction n rule: str_nat.induct)
  case (1 n)
  show ?case
  proof (cases "n < 10")
    case True
    then show ?thesis
      by (simp add: str_nat.simps[of n] digit_of_digit_char)
  next
    case False
    with 1 have "parse_digits 0 (str_nat (n div 10)) = Some (n div 10)"
      by simp
    with False show ?thesis
      by (simp add: str_nat.simps[of n] parse_digits_append digit_of_digit_char)
  qed
qed

lemma str_nat_not_Nil: "str_nat n \<noteq> []"
  by (subst str_nat.simps) simp

lemma parse_nat_str_nat: "parse_nat (str_nat n) = Some n"
  by (simp add: parse_nat_def str_nat_not_Nil parse_digits_str_nat)

lemma parse_digits_Some_digits:
  "parse_digits acc xs = Some v \<Longrightarrow> c \<in> set xs \<Longrightarrow> digit_of_char c \<noteq> None"
  by (induction xs arbitrary: acc) (auto split: option.splits)

lemma str_nat_digits: "c \<in> set (str_nat n) \<Longrightarrow> digit_of_char c \<noteq> None"
  using parse_digits_Some_digits [OF parse_digits_str_nat] .

lemma str_nat_no_point: "CHR ''.'' \<notin> set (str_nat n)"
  using str_nat_digits [of "CHR ''.''" n] by (auto simp: digit_of_char_not_digit)

lemma str_nat_no_minus: "CHR ''-'' \<notin> set (str_nat n)"
  using str_nat_digits [of "CHR ''-''" n] by (auto simp: digit_of_char_not_digit)

lemma hd_str_nat: "hd (str_nat n) \<noteq> CHR ''-''"
  using str_nat_no_minus [of n] str_nat_not_Nil [of n] by (cases "str_nat n") auto

lemma length_str_nat: "n < 10 ^ s \<Longrightarrow> 0 < s \<Longrightarrow> length (str_nat n) \<le> s"
proof (induction n arbitrary: s rule: str_nat.induct)
  case (1 n)
  show ?case
  proof (cases "n < 10")
    case True
    with 1(3) show ?thesis
      by (simp add: str_nat.simps[of n])
  next
    case False
    obtain t where s: "s = Suc t"
      using 1(3) by (cases s) auto
    have "t \<noteq> 0"
      using False 1(2) s by (cases t) auto
    moreover have "n div 10 < 10 ^ t"
      using 1(2) s by (simp add: less_mult_imp_div_less mult.commute)
    ultimately have "length (str_nat (n div 10)) \<le> t"
      using 1(1) [OF False, of t] by simp
    with False s show ?thesis
      by (simp add: str_nat.simps[of n])
  qed
qed

lemma parse_digits_zeros: "parse_digits 0 (replicate k CHR ''0'' @ xs) = parse_digits 0 xs"
  by (induction k) (simp_all add: digit_of_char_zero)

lemma str_int_examples: "str_int 0 = ''0''" "str_int 1 = ''1''" "str_int 9999 = ''9999''"
  by (simp_all add: str_int_def str_nat.simps digit_char_def)

text \<open>Writing a price and reading it back gives the price, scale included.\<close>

lemma parse_decimal_str_decimal: "parse_decimal (str_decimal d) = Some d"
proof -
  define u where "u = unscaled d"
  define s where "s = scale d"
  define a where "a = nat \<bar>u\<bar>"
  define ip where "ip = str_nat (a div 10 ^ s)"
  define f where "f = str_nat (a mod 10 ^ s)"
  define fd where "fd = replicate (s - length f) CHR ''0'' @ f"
  define rest where "rest = ip @ (if s = 0 then [] else CHR ''.'' # fd)"
  define str where "str = str_decimal d"
  have d: "d = Decimal u s"
    by (simp add: u_def s_def)
  have str: "str = (if u < 0 then ''-'' else []) @ rest"
    by (simp add: str_def str_decimal_def u_def s_def a_def ip_def f_def fd_def rest_def Let_def)
  have ip_ne: "ip \<noteq> []"
    by (simp add: ip_def str_nat_not_Nil)
  have hd_rest: "hd rest \<noteq> CHR ''-''" "rest \<noteq> []"
    using ip_ne hd_str_nat [of "a div 10 ^ s"] by (simp_all add: rest_def ip_def)
  have neg: "(str \<noteq> [] \<and> hd str = CHR ''-'') = (u < 0)"
    using hd_rest by (simp add: str)
  have rest': "(if u < 0 then tl str else str) = rest"
    by (simp add: str)
  have nopt: "\<And>c. c \<in> set ip \<Longrightarrow> c \<noteq> CHR ''.''"
    using str_nat_no_point [of "a div 10 ^ s"] by (auto simp: ip_def)
  have tw: "takeWhile (\<lambda>c. c \<noteq> CHR ''.'') rest = ip"
    using nopt by (simp add: rest_def takeWhile_append2)
  have dw: "dropWhile (\<lambda>c. c \<noteq> CHR ''.'') rest = (if s = 0 then [] else CHR ''.'' # fd)"
    using nopt by (simp add: rest_def dropWhile_append2)
  have pip: "parse_nat ip = Some (a div 10 ^ s)"
    by (simp add: ip_def parse_nat_str_nat)
  have sg: "u < 0 \<Longrightarrow> - int a = u" "\<not> u < 0 \<Longrightarrow> int a = u"
    by (simp_all add: a_def)
  have unfolded: "parse_decimal str =
     (if s = 0 then Some (Decimal (if u < 0 then - int (a div 10 ^ s) else int (a div 10 ^ s)) 0)
      else (case parse_nat fd of
              None \<Rightarrow> None
            | Some b \<Rightarrow>
                Some (Decimal (if u < 0 then - int (a div 10 ^ s * 10 ^ length fd + b)
                               else int (a div 10 ^ s * 10 ^ length fd + b)) (length fd))))"
    unfolding parse_decimal_def Let_def neg rest' tw dw pip by (simp split: option.splits)
  have "parse_decimal str = Some (Decimal u s)"
  proof (cases "s = 0")
    case True
    with sg show ?thesis
      by (simp add: unfolded)
  next
    case False
    have "a mod 10 ^ s < 10 ^ s"
      by simp
    then have lf: "length f \<le> s"
      using False by (simp add: f_def length_str_nat)
    then have lfd: "length fd = s"
      by (simp add: fd_def)
    have fd_ne: "fd \<noteq> []"
      using lfd False by auto
    have "parse_digits 0 fd = Some (a mod 10 ^ s)"
      by (simp add: fd_def parse_digits_zeros f_def parse_digits_str_nat)
    then have pfd: "parse_nat fd = Some (a mod 10 ^ s)"
      using fd_ne by (simp add: parse_nat_def)
    have val: "a div 10 ^ s * 10 ^ s + a mod 10 ^ s = a"
      by (rule div_mult_mod_eq)
    show ?thesis
      using False sg by (simp add: unfolded pfd lfd val)
  qed
  then show ?thesis
    by (simp add: str_def d)
qed

subsection \<open>The guard, the entity and the store\<close>

lemma check_content_type_cases:
  "check_content_type ct req =
     (if map_of (headers req) ''Content-Type'' = Some ct then Inr ()
      else Inl (HTTPException 415 (''Content-Type must be '' @ ct)))"
  by (simp add: check_content_type_def status_defs split: option.splits)

lemma Product_find_prod_id: "Product_find db i = Some p \<Longrightarrow> prod_id p = Some i"
  by (auto simp: Product_find_def find_Some_iff)

lemma deserialize_prod_id: "deserialize q data = Inr p \<Longrightarrow> prod_id p = prod_id q"
  by (auto simp: deserialize_def split: json.splits option.splits)

lemma deserialize_fields:
  "deserialize q data = Inr p \<Longrightarrow>
     \<exists>kv. data = JObj kv \<and> str_field kv ''name'' = Some (name p)
        \<and> str_field kv ''sku'' = Some (sku p)
        \<and> str_field kv ''description'' = Some (description p)
        \<and> price_field kv = Some (price p)
        \<and> url_field kv = Some (image_url p)"
  by (auto simp: deserialize_def split: json.splits option.splits)

lemma deserialize_serialize:
  "deserialize q (serialize p) =
     Inr (q\<lparr>name := name p, sku := sku p, description := description p, price := price p,
           image_url := image_url p\<rparr>)"
  by (simp add: deserialize_def serialize_def str_field_def price_field_def url_field_def
        decimal_of_json_def parse_decimal_str_decimal split: option.splits)

lemma find_update:
  "Product_find db i = Some q \<Longrightarrow> prod_id p = Some i \<Longrightarrow> Product_find (update p db) i = Some p"
  unfolding Product_find_def update_def
  by (induction "rows db" arbitrary: db) (auto simp: find_Some_iff split: if_splits)

lemma deserialize_widget:
  "deserialize q widget_payload =
     Inr (q\<lparr>name := ''Widget'', sku := ''AB123CD'', description := ''basic widget'',
           price := Decimal 999 2, image_url := Some ''http://x/img.png''\<rparr>)"
  by (simp add: deserialize_def widget_payload_def str_field_def price_field_def url_field_def
        decimal_of_json_def parse_decimal_def parse_nat_def digit_of_char_def Let_def)

lemma deserialize_gadget: "deserialize widget gadget_payload = Inr gadget"
  by (simp add: deserialize_def gadget_payload_def str_field_def price_field_def url_field_def
        decimal_of_json_def parse_decimal_def parse_nat_def digit_of_char_def Let_def
        widget_def gadget_def)

lemma find_widget:
  "Product_find widget_store 1 = Some widget" "Product_find widget_store 0 = None"
  "Product_find widget_store 9999 = None" "Product_find empty_store 1 = None"
  by (simp_all add: Product_find_def widget_store_def widget_def empty_store_def)

section \<open>The Create handler\<close>

text \<open>
  C1 (as amended). For every successful POST /products request (the Content-Type is
  \<^verbatim>\<open>application/json\<close>, the body is JSON and deserializes into a product), the Create
  handler responds with HTTP 201, a body equal to the serialized product including the
  newly assigned integer id, and a Location header that equals the absolute URL
  \<^verbatim>\<open><scheme>://<host>/products/<id>\<close> of the Read endpoint for that id, which is never
  the bare path \<^verbatim>\<open>/products/<id>\<close>; one row, the product with that id, is added to the
  store.
\<close>

theorem create_products_created:
  assumes "map_of (headers req) ''Content-Type'' = Some ''application/json''"
    and "json_body req = Some data"
    and "deserialize Product data = Inr p"
  shows "create_products req db =
           (Inr \<lparr>status_code = 201,
                 body = serialize (p\<lparr>prod_id := Some (next_id db)\<rparr>),
                 resp_headers =
                   [(''Location'',
                     url_scheme req @ ''://'' @ host req @ ''/products/''
                       @ str_int (next_id db))]\<rparr>,
            db\<lparr>rows := rows db @ [p\<lparr>prod_id := Some (next_id db)\<rparr>],
               next_id := next_id db + 1\<rparr>)
         \<and> member_of (serialize (p\<lparr>prod_id := Some (next_id db)\<rparr>)) ''id''
             = Some (JInt (next_id db))
         \<and> url_scheme req @ ''://'' @ host req @ ''/products/'' @ str_int (next_id db)
             \<noteq> ''/products/'' @ str_int (next_id db)"
proof -
  have "length (url_scheme req @ ''://'' @ host req @ ''/products/'' @ str_int (next_id db))
          \<noteq> length (''/products/'' @ str_int (next_id db))"
    by simp
  then have "url_scheme req @ ''://'' @ host req @ ''/products/'' @ str_int (next_id db)
             \<noteq> ''/products/'' @ str_int (next_id db)"
    by metis
  with assms show ?thesis
    by (simp add: create_products_def check_content_type_cases get_json_def create_def
          url_for_get_products_def serialize_def member_of_def status_defs Let_def)
qed

text \<open>
  The example scenario of the spec: the widget is created with id 1, and the Location
  header is \<^verbatim>\<open>http://localhost/products/1\<close>.
\<close>

theorem create_products_created_witness:
  "create_products post_widget empty_store =
     (Inr \<lparr>status_code = 201, body = serialize widget,
           resp_headers = [(''Location'', ''http://localhost/products/1'')]\<rparr>,
      widget_store)
   \<and> member_of (serialize widget) ''id'' = Some (JInt 1)"
proof -
  have h: "map_of (headers post_widget) ''Content-Type'' = Some ''application/json''"
    by (simp add: post_widget_def)
  have b: "json_body post_widget = Some widget_payload"
    by (simp add: post_widget_def)
  have d: "deserialize Product widget_payload =
     Inr (Product\<lparr>name := ''Widget'', sku := ''AB123CD'', description := ''basic widget'',
           price := Decimal 999 2, image_url := Some ''http://x/img.png''\<rparr>)"
    by (rule deserialize_widget)
  show ?thesis
    using create_products_created [OF h b d, where db = empty_store]
    by (simp add: post_widget_def empty_store_def Product_def widget_def widget_store_def
          str_int_examples)
qed

text \<open>
  The claim as the spec words it asks for a Location header equal to the path
  \<^verbatim>\<open>/products/<id>\<close>. The handler builds the URL with \<^verbatim>\<open>_external=True\<close>: for the
  example request the header is not that path.
\<close>

theorem create_products_location_counterexample:
  "create_products post_widget empty_store =
     (Inr \<lparr>status_code = 201, body = serialize widget,
           resp_headers = [(''Location'', ''http://localhost/products/1'')]\<rparr>,
      widget_store)
   \<and> member_of (serialize widget) ''id'' = Some (JInt 1)
   \<and> ''http://localhost/products/1'' \<noteq> ''/products/'' @ str_int 1"
  by (simp add: create_products_def check_content_type_cases get_json_def create_def
        url_for_get_products_def status_defs Let_def post_widget_def empty_store_def
        deserialize_widget Product_def widget_def widget_store_def serialize_def member_of_def
        str_int_examples)

text \<open>
  C10. When the guard rejects a POST /products request, the handler ends with the
  guard's exception, which is the 415, whatever the body of the request is (the body is
  not looked at), and the store is as it was: no row is created.
\<close>

theorem create_products_guard_first:
  assumes "check_content_type ''application/json'' req = Inl e"
  shows "create_products (req\<lparr>json_body := b\<rparr>) db = (Inl e, db)
         \<and> e = HTTPException 415 ''Content-Type must be application/json''"
  using assms
  by (auto simp: create_products_def check_content_type_def status_defs
      split: option.splits if_splits)

theorem create_products_guard_first_witness:
  "check_content_type ''application/json'' (post_widget\<lparr>headers := []\<rparr>) =
     Inl (HTTPException 415 ''Content-Type must be application/json'')
   \<and> create_products (post_widget\<lparr>headers := [], json_body := Some widget_payload\<rparr>)
        empty_store =
     (Inl (HTTPException 415 ''Content-Type must be application/json''), empty_store)
   \<and> create_products (post_widget\<lparr>headers := [], json_body := None\<rparr>) empty_store =
     (Inl (HTTPException 415 ''Content-Type must be application/json''), empty_store)"
proof -
  have g: "check_content_type ''application/json'' (post_widget\<lparr>headers := []\<rparr>) =
     Inl (HTTPException 415 ''Content-Type must be application/json'')"
    by (simp add: check_content_type_def status_defs)
  show ?thesis
    using g create_products_guard_first [OF g, where b = "Some widget_payload" and db = empty_store]
      create_products_guard_first [OF g, where b = None and db = empty_store]
    by simp
qed

section \<open>The Read handler\<close>

text \<open>
  C4. For every GET /products/{id} request: if no product with that id exists, the Read
  handler fails with HTTP 404 and the message \<^verbatim>\<open>Product with id '<id>' was not found.\<close>
  with the id in decimal; if the product exists, it responds HTTP 200 with the
  serialized product. In both cases the store is returned as it was.
\<close>

theorem get_products_read:
  "(Product_find db i = None \<longrightarrow>
      get_products i req db =
        (Inl (HTTPException 404
                (''Product with id '' @ [CHR 0x27] @ str_int i @ [CHR 0x27]
                 @ '' was not found.'')), db))
   \<and> (\<forall>p. Product_find db i = Some p \<longrightarrow>
      get_products i req db =
        (Inr \<lparr>status_code = 200, body = serialize p, resp_headers = []\<rparr>, db))"
  by (simp add: get_products_def status_defs)

text \<open>The spec's examples: id 0 and id 9999 are missing, id 1 is the widget.\<close>

theorem get_products_read_witness:
  "get_products 0 post_widget widget_store =
     (Inl (HTTPException 404 ''Product with id '0' was not found.''), widget_store)
   \<and> get_products 9999 post_widget widget_store =
     (Inl (HTTPException 404 ''Product with id '9999' was not found.''), widget_store)
   \<and> get_products 1 post_widget widget_store =
     (Inr \<lparr>status_code = 200, body = serialize widget, resp_headers = []\<rparr>, widget_store)"
  using get_products_read [where db = widget_store and i = 0 and req = post_widget]
    get_products_read [where db = widget_store and i = 9999 and req = post_widget]
    get_products_read [where db = widget_store and i = 1 and req = post_widget]
  by (simp add: find_widget str_int_examples)

section \<open>The Update handler\<close>

text \<open>
  C2. For every PUT /products/{id} request where no product with that id exists, the
  Update handler fails with HTTP 404 and the message of the Read handler, whatever the
  headers and the body of the request are (so also when the Content-Type is absent or
  wrong: the lookup runs before the guard), and the store is returned as it was.
\<close>

theorem update_products_not_found:
  assumes "Product_find db i = None"
  shows "update_products i (req\<lparr>headers := hs, json_body := b\<rparr>) db =
           (Inl (HTTPException 404
                   (''Product with id '' @ [CHR 0x27] @ str_int i @ [CHR 0x27]
                    @ '' was not found.'')), db)
         \<and> update_products i req db = get_products i req db"
  using assms by (simp add: update_products_def get_products_def status_defs)

theorem update_products_not_found_witness:
  "Product_find widget_store 9999 = None
   \<and> update_products 9999 (put_gadget\<lparr>headers := [], json_body := None\<rparr>) widget_store =
       (Inl (HTTPException 404 ''Product with id '9999' was not found.''), widget_store)
   \<and> update_products 9999
        (put_gadget\<lparr>headers := [(''Content-Type'', ''text/plain'')], json_body := None\<rparr>)
        widget_store =
       (Inl (HTTPException 404 ''Product with id '9999' was not found.''), widget_store)"
proof -
  have nf: "Product_find widget_store 9999 = None"
    by (rule find_widget)
  show ?thesis
    using nf
      update_products_not_found [OF nf, where req = put_gadget and hs = "[]" and b = None]
      update_products_not_found [OF nf, where req = put_gadget
        and hs = "[(''Content-Type'', ''text/plain'')]" and b = None]
    by (simp add: str_int_examples)
qed

text \<open>
  C5. For every PUT /products/{id} request on an existing product with a valid body
  (the Content-Type is \<^verbatim>\<open>application/json\<close>, the body is JSON and deserializes onto the
  product), the updated product keeps the id of the path (the body's \<^verbatim>\<open>id\<close>, if any,
  is not read), its other fields are the values of the body, the handler responds HTTP
  200 with the serialized updated product, and the store holds the updated product
  under that id.
\<close>

theorem update_products_updated:
  assumes "Product_find db i = Some q"
    and "map_of (headers req) ''Content-Type'' = Some ''application/json''"
    and "json_body req = Some data"
    and "deserialize q data = Inr p"
  shows "update_products i req db =
           (Inr \<lparr>status_code = 200, body = serialize p, resp_headers = []\<rparr>, update p db)
         \<and> prod_id p = Some i
         \<and> member_of (serialize p) ''id'' = Some (JInt i)
         \<and> (\<exists>kv. data = JObj kv
               \<and> str_field kv ''name'' = Some (name p)
               \<and> str_field kv ''sku'' = Some (sku p)
               \<and> str_field kv ''description'' = Some (description p)
               \<and> price_field kv = Some (price p)
               \<and> url_field kv = Some (image_url p))
         \<and> Product_find (update p db) i = Some p"
proof -
  have id: "prod_id p = Some i"
    using assms(1,4) by (simp add: deserialize_prod_id Product_find_prod_id)
  have resp: "update_products i req db =
           (Inr \<lparr>status_code = 200, body = serialize p, resp_headers = []\<rparr>, update p db)"
    using assms
    by (simp add: update_products_def check_content_type_cases get_json_def status_defs)
  have ser: "member_of (serialize p) ''id'' = Some (JInt i)"
    using id by (simp add: serialize_def member_of_def)
  show ?thesis
    using id resp ser deserialize_fields [OF assms(4)] find_update [OF assms(1) id]
    by simp
qed

text \<open>
  Updating the widget with a body whose \<^verbatim>\<open>id\<close> is 42: the product keeps id 1 and takes
  every other field from the body.
\<close>

theorem update_products_updated_witness:
  "update_products 1 put_gadget widget_store =
     (Inr \<lparr>status_code = 200, body = serialize gadget, resp_headers = []\<rparr>,
      \<lparr>rows = [gadget], next_id = 2\<rparr>)
   \<and> member_of (serialize gadget) ''id'' = Some (JInt 1)
   \<and> member_of gadget_payload ''id'' = Some (JInt 42)"
proof -
  have f: "Product_find widget_store 1 = Some widget"
    by (rule find_widget)
  have h: "map_of (headers put_gadget) ''Content-Type'' = Some ''application/json''"
    by (simp add: put_gadget_def)
  have b: "json_body put_gadget = Some gadget_payload"
    by (simp add: put_gadget_def)
  have u: "update gadget widget_store = \<lparr>rows = [gadget], next_id = 2\<rparr>"
    by (simp add: update_def widget_store_def widget_def gadget_def)
  show ?thesis
    using update_products_updated [OF f h b deserialize_gadget]
    by (simp add: u gadget_payload_def member_of_def)
qed

section \<open>The Content-Type guard\<close>

text \<open>
  C3. The guard fails with 415 and the message \<^verbatim>\<open>Content-Type must be <expected>\<close> when
  the request has no Content-Type header, and fails the same way when the header is
  present with any value other than the expected string (so a media type with a
  parameter, \<^verbatim>\<open>application/json; charset=utf-8\<close>, is refused); when the header equals
  the expected type it returns normally, with no value.
\<close>

theorem check_content_type_guard:
  "check_content_type ct (req\<lparr>headers := []\<rparr>) =
     Inl (HTTPException 415 (''Content-Type must be '' @ ct))
   \<and> (check_content_type ct req = Inr ()) = (map_of (headers req) ''Content-Type'' = Some ct)
   \<and> (check_content_type ct req = Inl (HTTPException 415 (''Content-Type must be '' @ ct)))
       = (map_of (headers req) ''Content-Type'' \<noteq> Some ct)
   \<and> check_content_type ''application/json''
        (req\<lparr>headers := [(''Content-Type'', ''application/json; charset=utf-8'')]\<rparr>) =
       Inl (HTTPException 415 ''Content-Type must be application/json'')"
  by (auto simp: check_content_type_def status_defs split: option.splits)

section \<open>Requests that are refused\<close>

text \<open>
  C7 (as amended). For every POST /products request, and for every PUT /products/{id}
  request on an id that exists: when the Content-Type header is missing or is not
  \<^verbatim>\<open>application/json\<close> the response status is 415; when the header is
  \<^verbatim>\<open>application/json\<close> and the body is not valid JSON the status is 400; in neither
  case is it a 5xx status.
\<close>

theorem bad_request_statuses:
  "(map_of (headers req) ''Content-Type'' \<noteq> Some ''application/json'' \<longrightarrow>
      http_status (fst (create_products req db)) = 415
      \<and> http_status (fst (create_products req db)) < 500)
   \<and> (map_of (headers req) ''Content-Type'' = Some ''application/json''
        \<and> json_body req = None \<longrightarrow>
      http_status (fst (create_products req db)) = 400
      \<and> http_status (fst (create_products req db)) < 500)
   \<and> (\<forall>q. Product_find db i = Some q
        \<and> map_of (headers req) ''Content-Type'' \<noteq> Some ''application/json'' \<longrightarrow>
      http_status (fst (update_products i req db)) = 415
      \<and> http_status (fst (update_products i req db)) < 500)
   \<and> (\<forall>q. Product_find db i = Some q
        \<and> map_of (headers req) ''Content-Type'' = Some ''application/json''
        \<and> json_body req = None \<longrightarrow>
      http_status (fst (update_products i req db)) = 400
      \<and> http_status (fst (update_products i req db)) < 500)"
  by (simp add: create_products_def update_products_def check_content_type_cases get_json_def
        http_status_def status_defs)

text \<open>
  A POST and a PUT of the widget: without a Content-Type, with \<^verbatim>\<open>text/plain\<close>, and
  with \<^verbatim>\<open>application/json\<close> and a body that is not JSON.
\<close>

theorem bad_request_statuses_witness:
  "http_status (fst (create_products (post_widget\<lparr>headers := []\<rparr>) empty_store)) = 415
   \<and> http_status (fst (create_products (post_widget\<lparr>json_body := None\<rparr>) empty_store)) = 400
   \<and> http_status
        (fst (update_products 1
               (put_gadget\<lparr>headers := [(''Content-Type'', ''text/plain'')]\<rparr>) widget_store))
       = 415
   \<and> http_status (fst (update_products 1 (put_gadget\<lparr>json_body := None\<rparr>) widget_store)) = 400"
  using bad_request_statuses [where req = "post_widget\<lparr>headers := []\<rparr>" and db = empty_store]
    bad_request_statuses [where req = "post_widget\<lparr>json_body := None\<rparr>" and db = empty_store]
    bad_request_statuses [where req = "put_gadget\<lparr>headers := [(''Content-Type'', ''text/plain'')]\<rparr>"
      and db = widget_store and i = 1]
    bad_request_statuses [where req = "put_gadget\<lparr>json_body := None\<rparr>"
      and db = widget_store and i = 1]
  by (simp add: find_widget post_widget_def put_gadget_def)

text \<open>
  The claim as the spec words it covers every PUT request. A PUT without a Content-Type
  header on an id that does not exist is answered 404, not 415: the lookup comes first.
\<close>

theorem update_missing_status_counterexample:
  "map_of (headers (put_gadget\<lparr>headers := []\<rparr>)) ''Content-Type'' = None
   \<and> Product_find empty_store 1 = None
   \<and> http_status (fst (update_products 1 (put_gadget\<lparr>headers := []\<rparr>) empty_store)) = 404
   \<and> http_status (fst (update_products 1 (put_gadget\<lparr>json_body := None\<rparr>) empty_store)) = 404"
  by (simp add: update_products_def find_widget http_status_def status_defs)

section \<open>Serialization\<close>

text \<open>
  C6. Deserializing the serialization of a product, onto any product, succeeds and
  reproduces the name, the sku, the description, the price and the image URL; the id
  is not taken from the serialization: it stays that of the product deserialized onto.
\<close>

theorem serialize_deserialize_round_trip:
  "\<exists>p'. deserialize q (serialize p) = Inr p'
      \<and> name p' = name p \<and> sku p' = sku p \<and> description p' = description p
      \<and> price p' = price p \<and> image_url p' = image_url p
      \<and> prod_id p' = prod_id q"
  by (simp add: deserialize_serialize)

section \<open>The index and the URL map\<close>

text \<open>
  C9. For every GET / request the Index handler responds HTTP 200 with the one document
  \<open>api_details\<close>, whatever the request and the store are, and returns the store as it
  was. The document has the service name, the version, a description, the status
  \<^verbatim>\<open>online\<close> and a list of endpoints, each an object with exactly the members
  \<^verbatim>\<open>method\<close>, \<^verbatim>\<open>path\<close> and \<^verbatim>\<open>description\<close>; every operation that the URL map routes to
  a handler of the REST API is among them.
\<close>

theorem index_fixed_document:
  "index req db = (Inr \<lparr>status_code = 200, body = api_details, resp_headers = []\<rparr>, db)
   \<and> fst (index req db) = fst (index req' db')
   \<and> dispatch (req\<lparr>req_method := GET, path := []\<rparr>) db =
       (Inr \<lparr>status_code = 200, body = api_details, resp_headers = []\<rparr>, db)
   \<and> member_of api_details ''name'' = Some (JStr ''Products REST API Service'')
   \<and> member_of api_details ''version'' = Some (JStr ''0.1.0'')
   \<and> member_of api_details ''description'' =
       Some (JStr ''This is the products service API. Below is how you use it.'')
   \<and> member_of api_details ''status'' = Some (JStr ''online'')
   \<and> (\<exists>es. member_of api_details ''endpoints'' = Some (JArr es)
         \<and> length es = 5
         \<and> list_all (\<lambda>e. keys_of e = [''method'', ''path'', ''description'']) es)
   \<and> documented_operations api_details =
       [(''POST'', ''/products''), (''GET'', ''/products/<product_id>''),
        (''GET'', ''/products''), (''PUT'', ''/products/<product_id>''),
        (''DELETE'', ''/products/<product_id>'')]
   \<and> routed_operations =
       [(''POST'', ''/products''), (''GET'', ''/products/<product_id>''),
        (''PUT'', ''/products/<product_id>'')]
   \<and> set routed_operations \<subseteq> set (documented_operations api_details)"
  by (simp add: index_def dispatch_def url_map_def rest_api_rules_def status_defs api_details_def member_of_def
        keys_of_def documented_operations_def List.map_filter_simps routed_operations_def
        rule_doc_def)

text \<open>
  C8. The index document lists \<^verbatim>\<open>DELETE /products/<product_id>\<close>, and routes.py has no
  rule for that method: a request to delete the widget, which exists, is answered 405
  (Method Not Allowed) and leaves the store as it was, where the spec asks for 204 and
  the record removed.
\<close>

theorem delete_not_routed:
  "dispatch delete_widget widget_store =
     (Inl (HTTPException 405 ''Method Not Allowed''), widget_store)
   \<and> http_status (fst (dispatch delete_widget widget_store)) \<noteq> 204
   \<and> Product_find (snd (dispatch delete_widget widget_store)) 1 = Some widget
   \<and> (''DELETE'', ''/products/<product_id>'') \<in> set (documented_operations api_details)
   \<and> (''DELETE'', ''/products/<product_id>'') \<notin> set routed_operations"
  by (simp add: dispatch_def delete_widget_def url_map_def rest_api_rules_def parse_nat_def digit_of_char_def
        status_defs http_status_def find_widget documented_operations_def api_details_def
        member_of_def List.map_filter_simps routed_operations_def rule_doc_def)

end
